theory Spec2Isabelle
  imports Complex_Main "HOL-Library.Sublist"
begin

section \<open>The Iris exploration page: data model\<close>

text \<open>
  The program is one script, \<^verbatim>\<open>app.py\<close>. It builds a data frame from the bundled Iris
  resource, and derives a statistics table, a histogram, a scatter plot and a detail
  table from the frame and four dropdown selections.

  Measurements are modelled as rationals: the bundled values are finite decimals, there
  is no NaN or infinity among them, and rounding of binary floating point is not modelled.
  Exceptions of the Python run are values of \<open>py_error\<close>.
\<close>

datatype py_error = KeyError | ValueError | IndexError | TypeError | StreamlitAPIException

text \<open>
  The object returned by \<^verbatim>\<open>load_iris()\<close>. The script reads four of its attributes.
  The resource itself is not part of the source; it is a parameter of the model.
  The loader's arrays \<^verbatim>\<open>data\<close> and \<^verbatim>\<open>target\<close> have one entry per sample, a row of values
  and a label, so the resource holds a list of samples and the two arrays are its
  projections.
\<close>

record bunch =
  samples :: "(rat list \<times> nat) list"
  feature_names :: "string list"
  target_names :: "string list"

definition data :: "bunch \<Rightarrow> rat list list" where
  "data iris = map fst (samples iris)"

definition target :: "bunch \<Rightarrow> nat list" where
  "target iris = map snd (samples iris)"

text \<open>
  A frame has its column labels in order, the labels of its float columns in order, and
  its rows. A row holds one value per float column and the label of the object column
  \<^verbatim>\<open>Species\<close>.
\<close>

record iris_row =
  measurements :: "rat list"
  species :: string

record dataframe =
  columns :: "string list"
  numeric_names :: "string list"
  rows :: "iris_row list"

datatype series = Floats "rat list" | Objects "string list"

subsection \<open>\<^verbatim>\<open>load_data\<close> (lines 23-32)\<close>

text \<open>
  \<^verbatim>\<open>pd.DataFrame(iris.data, columns=iris.feature_names)\<close> raises \<open>ValueError\<close> when a
  row of the array does not have one value per column name.
  \<^verbatim>\<open>iris.target_names[iris.target]\<close> indexes the name array with every label and raises
  \<open>IndexError\<close> for a label outside it.
  Line 31, \<^verbatim>\<open>iris_df['Species'] = ...\<close>, appends the label column when no feature is named
  \<^verbatim>\<open>Species\<close>. A feature column of that name is overwritten in place instead: the column
  labels stay as they are, and the overwritten column is no longer a float column, so its
  values leave the rows.
\<close>

definition float_values :: "string list \<Rightarrow> rat list \<Rightarrow> rat list" where
  "float_values names r = map snd (filter (\<lambda>(c, v). c \<noteq> ''Species'') (zip names r))"

definition load_data :: "bunch \<Rightarrow> py_error + dataframe" where
  "load_data iris =
     (if \<not> list_all (\<lambda>r. length r = length (feature_names iris)) (data iris)
        then Inl ValueError
      else if \<not> list_all (\<lambda>t. t < length (target_names iris)) (target iris)
        then Inl IndexError
      else Inr \<lparr>columns = (if ''Species'' \<in> set (feature_names iris)
                           then feature_names iris
                           else feature_names iris @ [''Species'']),
                numeric_names = filter (\<lambda>c. c \<noteq> ''Species'') (feature_names iris),
                rows = map2 (\<lambda>m t. \<lparr>measurements = float_values (feature_names iris) m,
                                     species = target_names iris ! t\<rparr>)
                         (data iris) (target iris)\<rparr>)"

subsection \<open>Frame operations the script uses\<close>

fun index_of :: "'a \<Rightarrow> 'a list \<Rightarrow> nat option" where
  "index_of c [] = None"
| "index_of c (x # xs) =
     (if x = c then Some 0 else map_option Suc (index_of c xs))"

text \<open>
  \<^verbatim>\<open>iris_data[name]\<close>: the column of that name, \<open>KeyError\<close> when the frame has none.
\<close>

definition getitem :: "dataframe \<Rightarrow> string \<Rightarrow> py_error + series" where
  "getitem df c =
     (case index_of c (numeric_names df) of
        Some i \<Rightarrow> Inr (Floats (map (\<lambda>r. measurements r ! i) (rows df)))
      | None \<Rightarrow> if c = ''Species'' then Inr (Objects (map species (rows df)))
                else Inl KeyError)"

definition species_column :: "dataframe \<Rightarrow> string list" where
  "species_column df = map species (rows df)"

text \<open>
  \<^verbatim>\<open>series == value\<close>: the boolean mask, one entry per row.
\<close>

definition eq_mask :: "string list \<Rightarrow> string \<Rightarrow> bool list" where
  "eq_mask col v = map (\<lambda>s. s = v) col"

text \<open>
  \<^verbatim>\<open>iris_data[mask]\<close>: the rows at which the mask is true, in frame order. The masks of the
  script come from a column of the same frame, so they have one entry per row.
\<close>

fun select_mask :: "'a list \<Rightarrow> bool list \<Rightarrow> 'a list" where
  "select_mask (r # rs) (b # bs) = (if b then r # select_mask rs bs else select_mask rs bs)"
| "select_mask _ _ = []"

definition getitem_mask :: "dataframe \<Rightarrow> bool list \<Rightarrow> dataframe" where
  "getitem_mask df m = df\<lparr>rows := select_mask (rows df) m\<rparr>"

text \<open>
  \<^verbatim>\<open>Series.unique()\<close> is library code: it walks the column once and keeps a value the first
  time it is seen (values are returned in order of appearance).
\<close>

fun unique_from :: "'a list \<Rightarrow> 'a list \<Rightarrow> 'a list" where
  "unique_from seen [] = seen"
| "unique_from seen (x # xs) =
     (if x \<in> set seen then unique_from seen xs else unique_from (seen @ [x]) xs)"

definition unique :: "'a list \<Rightarrow> 'a list" where
  "unique xs = unique_from [] xs"

text \<open>
  \<^verbatim>\<open>select_dtypes(include=[np.number]).columns.tolist()\<close> (line 61): the names of the
  float columns; the object column \<^verbatim>\<open>Species\<close> is left out.
\<close>

definition numeric_columns :: "dataframe \<Rightarrow> string list" where
  "numeric_columns df = numeric_names df"

subsection \<open>The species-detail table (lines 130-132)\<close>

definition filterByCategory :: "dataframe \<Rightarrow> string \<Rightarrow> dataframe" where
  "filterByCategory df species_selected =
     getitem_mask df (eq_mask (species_column df) species_selected)"

subsection \<open>The scatter plot (lines 105-116)\<close>

definition species_colors :: "(string \<times> string) list" where
  "species_colors =
     [(''setosa'', ''red''), (''versicolor'', ''green''), (''virginica'', ''blue'')]"

text \<open>\<^verbatim>\<open>species_colors.get(species, "gray")\<close>\<close>

definition color_of :: "string \<Rightarrow> string" where
  "color_of s = (case map_of species_colors s of Some c \<Rightarrow> c | None \<Rightarrow> ''gray'')"

record point_set =
  label :: string
  points :: "(rat \<times> rat) list"
  color :: string

record scatter_spec =
  x_field :: string
  y_field :: string
  groups :: "point_set list"

text \<open>
  The two arguments of \<^verbatim>\<open>ax_scatter.scatter\<close> are columns of the same filtered frame; the
  plot pairs them by position. A column that is not numeric is outside what the
  dropdowns can offer and is reported as \<open>TypeError\<close>.
\<close>

definition float_series :: "dataframe \<Rightarrow> string \<Rightarrow> py_error + rat list" where
  "float_series df c =
     (case getitem df c of
        Inl e \<Rightarrow> Inl e
      | Inr (Floats xs) \<Rightarrow> Inr xs
      | Inr (Objects _) \<Rightarrow> Inl TypeError)"

fun scatter_loop :: "dataframe \<Rightarrow> string \<Rightarrow> string \<Rightarrow> string list \<Rightarrow> py_error + point_set list" where
  "scatter_loop df col_x col_y [] = Inr []"
| "scatter_loop df col_x col_y (s # ss) =
     (let species_data = getitem_mask df (eq_mask (species_column df) s) in
      case float_series species_data col_x of
        Inl e \<Rightarrow> Inl e
      | Inr xs \<Rightarrow>
          (case float_series species_data col_y of
             Inl e \<Rightarrow> Inl e
           | Inr ys \<Rightarrow>
               (case scatter_loop df col_x col_y ss of
                  Inl e \<Rightarrow> Inl e
                | Inr gs \<Rightarrow> Inr (\<lparr>label = s, points = zip xs ys, color = color_of s\<rparr> # gs))))"

definition buildScatter :: "dataframe \<Rightarrow> string \<Rightarrow> string \<Rightarrow> py_error + scatter_spec" where
  "buildScatter df col_x col_y =
     (case scatter_loop df col_x col_y (unique (species_column df)) of
        Inl e \<Rightarrow> Inl e
      | Inr gs \<Rightarrow> Inr \<lparr>x_field = col_x, y_field = col_y, groups = gs\<rparr>)"

subsection \<open>The histogram (lines 93-98)\<close>

text \<open>
  Modelled from the spec: the binning done inside the plotting library's \<^verbatim>\<open>hist\<close>, which is
  not part of the source. It "partitions the chosen field's values into \<open>binCount\<close>
  equal-width bins spanning [min, max] of that field" and "returns per-bin counts".
  Where the spec is silent the library's documented behaviour is followed: every bin is
  closed on the left and open on the right, the last one is closed on both sides; an
  empty column is binned over \<open>[0, 1]\<close>; a column whose values are all equal is binned over
  \<open>[v - 1/2, v + 1/2]\<close>; a bin count below one raises \<open>ValueError\<close>.
\<close>

definition outer_edges :: "rat list \<Rightarrow> rat \<times> rat" where
  "outer_edges a =
     (if a = [] then (0, 1)
      else let first_edge = Min (set a); last_edge = Max (set a) in
        if first_edge = last_edge then (first_edge - 1 / 2, last_edge + 1 / 2)
        else (first_edge, last_edge))"

definition bin_edges :: "rat \<Rightarrow> rat \<Rightarrow> nat \<Rightarrow> rat list" where
  "bin_edges first_edge last_edge n =
     map (\<lambda>k. first_edge + of_nat k * (last_edge - first_edge) / of_nat n) [0..<Suc n]"

definition bin_index :: "nat \<Rightarrow> rat \<Rightarrow> rat \<Rightarrow> rat \<Rightarrow> nat" where
  "bin_index n first_edge last_edge x =
     (let i = nat \<lfloor>(x - first_edge) / (last_edge - first_edge) * of_nat n\<rfloor>
      in if i = n then n - 1 else i)"

definition bincount :: "nat list \<Rightarrow> nat \<Rightarrow> nat list" where
  "bincount idx n = map (\<lambda>b. count_list idx b) [0..<n]"

definition hist :: "rat list \<Rightarrow> nat \<Rightarrow> py_error + (nat list \<times> rat list)" where
  "hist a bins =
     (if bins < 1 then Inl ValueError
      else let (first_edge, last_edge) = outer_edges a in
        Inr (bincount (map (bin_index bins first_edge last_edge) a) bins,
             bin_edges first_edge last_edge bins))"

record hist_spec =
  hist_field :: string
  hist_bins :: nat
  hist_edges :: "rat list"
  hist_counts :: "nat list"

text \<open>
  Line 94: the column is taken from the whole frame and the bin count is the literal 20.
\<close>

definition buildHistogram :: "dataframe \<Rightarrow> string \<Rightarrow> py_error + hist_spec" where
  "buildHistogram df selected_column_hist =
     (case float_series df selected_column_hist of
        Inl e \<Rightarrow> Inl e
      | Inr a \<Rightarrow>
          (case hist a 20 of
             Inl e \<Rightarrow> Inl e
           | Inr (n, edges) \<Rightarrow>
               Inr \<lparr>hist_field = selected_column_hist, hist_bins = 20,
                    hist_edges = edges, hist_counts = n\<rparr>))"

subsection \<open>Summary statistics (line 55)\<close>

text \<open>
  Modelled from the spec: \<^verbatim>\<open>describe()\<close> is library code, not part of the source. "For each
  numeric field, computes: count, arithmetic mean, sample standard deviation, minimum,
  25th/50th/75th percentiles (linear interpolation method), maximum." A statistic the
  library reports as NaN (every one but the count on a column without rows, the standard
  deviation on a column with a single row) is \<open>None\<close>.
\<close>

record column_stats =
  stat_count :: nat
  stat_mean :: "rat option"
  stat_std :: "real option"
  stat_min :: "rat option"
  stat_q25 :: "rat option"
  stat_q50 :: "rat option"
  stat_q75 :: "rat option"
  stat_max :: "rat option"

definition mean_of :: "rat list \<Rightarrow> rat" where
  "mean_of xs = sum_list xs / of_nat (length xs)"

definition sample_variance :: "rat list \<Rightarrow> rat" where
  "sample_variance xs =
     (\<Sum>x\<leftarrow>xs. (x - mean_of xs) ^ 2) / of_nat (length xs - 1)"

text \<open>
  Linear interpolation: the percentile sits at position \<open>q * (n - 1)\<close> of the sorted column;
  between two positions the value is interpolated between the two neighbours.
\<close>

definition quantile :: "rat list \<Rightarrow> rat \<Rightarrow> rat" where
  "quantile xs q =
     (let s = sort xs;
          pos = q * of_nat (length s - 1);
          lo = nat \<lfloor>pos\<rfloor>;
          hi = min (lo + 1) (length s - 1);
          gamma = pos - of_nat lo
      in s ! lo + gamma * (s ! hi - s ! lo))"

definition describe_column :: "rat list \<Rightarrow> column_stats" where
  "describe_column xs =
     \<lparr>stat_count = length xs,
      stat_mean = (if xs = [] then None else Some (mean_of xs)),
      stat_std = (if length xs < 2 then None else Some (sqrt (of_rat (sample_variance xs)))),
      stat_min = (if xs = [] then None else Some (Min (set xs))),
      stat_q25 = (if xs = [] then None else Some (quantile xs (1 / 4))),
      stat_q50 = (if xs = [] then None else Some (quantile xs (1 / 2))),
      stat_q75 = (if xs = [] then None else Some (quantile xs (3 / 4))),
      stat_max = (if xs = [] then None else Some (Max (set xs)))\<rparr>"

definition describe :: "dataframe \<Rightarrow> (string \<times> column_stats) list" where
  "describe df =
     map (\<lambda>i. (numeric_names df ! i,
               describe_column (map (\<lambda>r. measurements r ! i) (rows df))))
       [0..<length (numeric_names df)]"

subsection \<open>The dropdowns (lines 64-85 and 126-129)\<close>

text \<open>
  \<^verbatim>\<open>st.selectbox(label, options, index=0)\<close> is library code. Before any interaction it
  returns the option at \<open>index\<close>; it returns \<open>None\<close> when there are no options and raises
  when \<open>index\<close> is not a position of a non-empty option list. After an interaction it
  returns the option the user picked from the list. What the four calls of a run return
  is the \<open>selection\<close> of that run.
\<close>

definition selectbox :: "'a list \<Rightarrow> nat \<Rightarrow> py_error + 'a option" where
  "selectbox options index =
     (if options = [] then Inr None
      else if index < length options then Inr (Some (options ! index))
      else Inl StreamlitAPIException)"

record selection =
  selected_column_hist :: "string option"
  col_x :: "string option"
  col_y :: "string option"
  species_selected :: "string option"

definition initial_selection :: "dataframe \<Rightarrow> py_error + selection" where
  "initial_selection df =
     (case selectbox (numeric_columns df) 0 of
        Inl e \<Rightarrow> Inl e
      | Inr h \<Rightarrow>
          (case selectbox (numeric_columns df) 0 of
             Inl e \<Rightarrow> Inl e
           | Inr x \<Rightarrow>
               (case selectbox (numeric_columns df)
                       (if length (numeric_columns df) > 1 then 1 else 0) of
                  Inl e \<Rightarrow> Inl e
                | Inr y \<Rightarrow>
                    (case selectbox (unique (species_column df)) 0 of
                       Inl e \<Rightarrow> Inl e
                     | Inr s \<Rightarrow>
                         Inr \<lparr>selected_column_hist = h, col_x = x, col_y = y,
                              species_selected = s\<rparr>))))"

subsection \<open>One run of the script\<close>

text \<open>
  The artifacts a run hands to the page, in script order. An exception ends the run.
  A dropdown without options returns \<open>None\<close>, and indexing the frame with it raises
  \<open>KeyError\<close>; comparing the label column with \<open>None\<close> matches no row.
\<close>

record page =
  total_rows :: nat
  total_columns :: nat
  species_list :: "string list"
  summary :: "(string \<times> column_stats) list"
  fig_hist :: hist_spec
  fig_scatter :: scatter_spec
  species_options :: "string list"
  species_data :: dataframe
  species_count :: nat

definition run :: "dataframe \<Rightarrow> selection \<Rightarrow> py_error + page" where
  "run iris_data sel =
     (case selected_column_hist sel of
        None \<Rightarrow> Inl KeyError
      | Some c_hist \<Rightarrow>
     (case buildHistogram iris_data c_hist of
        Inl e \<Rightarrow> Inl e
      | Inr h \<Rightarrow>
     (case (col_x sel, col_y sel) of
        (Some cx, Some cy) \<Rightarrow>
          (case buildScatter iris_data cx cy of
             Inl e \<Rightarrow> Inl e
           | Inr sc \<Rightarrow>
               (let detail = (case species_selected sel of
                                None \<Rightarrow> getitem_mask iris_data (map (\<lambda>_. False) (rows iris_data))
                              | Some s \<Rightarrow> filterByCategory iris_data s)
                in Inr \<lparr>total_rows = length (rows iris_data),
                        total_columns = length (columns iris_data),
                        species_list = unique (species_column iris_data),
                        summary = describe iris_data,
                        fig_hist = h,
                        fig_scatter = sc,
                        species_options = unique (species_column iris_data),
                        species_data = detail,
                        species_count = length (rows detail)\<rparr>))
      | _ \<Rightarrow> Inl KeyError)))"

subsection \<open>Frames used as concrete inputs\<close>

definition sample_frame :: dataframe where
  "sample_frame =
     \<lparr>columns = [''sepal length (cm)'', ''sepal width (cm)'',
                  ''petal length (cm)'', ''petal width (cm)'', ''Species''],
      numeric_names = [''sepal length (cm)'', ''sepal width (cm)'',
                        ''petal length (cm)'', ''petal width (cm)''],
      rows = [\<lparr>measurements = [7, 16/5, 47/10, 7/5], species = ''versicolor''\<rparr>,
              \<lparr>measurements = [51/10, 7/2, 7/5, 1/5], species = ''setosa''\<rparr>,
              \<lparr>measurements = [32/5, 16/5, 9/2, 3/2], species = ''versicolor''\<rparr>,
              \<lparr>measurements = [63/10, 33/10, 6, 5/2], species = ''virginica''\<rparr>,
              \<lparr>measurements = [49/10, 3, 7/5, 1/5], species = ''setosa''\<rparr>,
              \<lparr>measurements = [29/5, 27/10, 51/10, 19/10], species = ''virginica''\<rparr>]\<rparr>"

text \<open>
  A resource with the layout of the bundled one: 150 rows of four values, 50 rows per
  label, three label names. The measurement values are placeholders, one row repeated
  per label.
\<close>

definition iris_layout :: bunch where
  "iris_layout =
     \<lparr>samples = replicate 50 ([51/10, 7/2, 7/5, 1/5], 0)
                 @ replicate 50 ([7, 16/5, 47/10, 7/5], 1)
                 @ replicate 50 ([63/10, 33/10, 6, 5/2], 2),
      feature_names = [''sepal length (cm)'', ''sepal width (cm)'',
                       ''petal length (cm)'', ''petal width (cm)''],
      target_names = [''setosa'', ''versicolor'', ''virginica'']\<rparr>"

definition one_column_frame :: dataframe where
  "one_column_frame =
     \<lparr>columns = [''petal length (cm)'', ''Species''],
      numeric_names = [''petal length (cm)''],
      rows = [\<lparr>measurements = [7/5], species = ''setosa''\<rparr>,
              \<lparr>measurements = [6], species = ''virginica''\<rparr>]\<rparr>"

definition sample_selection :: selection where
  "sample_selection =
     \<lparr>selected_column_hist = Some ''petal length (cm)'',
      col_x = Some ''sepal length (cm)'',
      col_y = Some ''petal width (cm)'',
      species_selected = Some ''versicolor''\<rparr>"

subsection \<open>Notions used to state the properties\<close>

text \<open>The values of the float column at position \<open>i\<close>, over every row of the frame.\<close>

definition whole_column :: "dataframe \<Rightarrow> nat \<Rightarrow> rat list" where
  "whole_column df i = map (\<lambda>r. measurements r ! i) (rows df)"

text \<open>
  Membership of a value in bin \<open>k\<close> of a list of edges: from edge \<open>k\<close> up to, not
  including, edge \<open>k + 1\<close>; the last bin includes its right edge.
\<close>

definition in_bin :: "rat list \<Rightarrow> nat \<Rightarrow> rat \<Rightarrow> bool" where
  "in_bin edges k x =
     (edges ! k \<le> x \<and>
      (if Suc (Suc k) = length edges then x \<le> edges ! Suc k else x < edges ! Suc k))"

text \<open>
  The elements of a list at the positions where they occur for the first time, in the
  order of those positions.
\<close>

definition first_occurrences :: "'a list \<Rightarrow> 'a list" where
  "first_occurrences xs =
     map (\<lambda>i. xs ! i) (filter (\<lambda>i. xs ! i \<notin> set (take i xs)) [0..<length xs])"

text \<open>
  The point-set of one label: the pairs of the values at positions \<open>i\<close> and \<open>j\<close> of the
  rows with that label, in row order.
\<close>

definition group_of :: "dataframe \<Rightarrow> nat \<Rightarrow> nat \<Rightarrow> string \<Rightarrow> point_set" where
  "group_of df i j s =
     \<lparr>label = s,
      points = map (\<lambda>r. (measurements r ! i, measurements r ! j))
                 (filter (\<lambda>r. species r = s) (rows df)),
      color = color_of s\<rparr>"

text \<open>The charts of a run, or the exception that ended it.\<close>

definition charts :: "py_error + page \<Rightarrow> py_error + hist_spec \<times> scatter_spec" where
  "charts r = (case r of Inl e \<Rightarrow> Inl e | Inr p \<Rightarrow> Inr (fig_hist p, fig_scatter p))"

section \<open>Properties\<close>

subsection \<open>Masks, uniqueness and column lookup\<close>

lemma select_mask_map: "select_mask xs (map P xs) = filter P xs"
  by (induction xs) auto

lemma rows_getitem_mask_eq:
  "rows (getitem_mask df (eq_mask (species_column df) s)) = filter (\<lambda>r. species r = s) (rows df)"
  by (simp add: getitem_mask_def eq_mask_def species_column_def comp_def select_mask_map)

lemma set_unique_from: "set (unique_from seen xs) = set seen \<union> set xs"
  by (induction xs arbitrary: seen) auto

lemma distinct_unique_from: "distinct seen \<Longrightarrow> distinct (unique_from seen xs)"
  by (induction xs arbitrary: seen) auto

lemma unique_from_positions:
  "unique_from seen xs =
     seen @ map (\<lambda>i. xs ! i) (filter (\<lambda>i. xs ! i \<notin> set seen \<union> set (take i xs)) [0..<length xs])"
proof (induction xs arbitrary: seen)
  case Nil
  then show ?case by simp
next
  case (Cons x xs)
  have upt: "[0..<length (x # xs)] = 0 # map Suc [0..<length xs]"
    by (simp add: upt_conv_Cons map_Suc_upt del: upt_Suc)
  show ?case
  proof (cases "x \<in> set seen")
    case True
    then have eq: "insert x (set seen) = set seen" by auto
    have "\<And>i. (xs ! i \<notin> set seen \<and> xs ! i \<noteq> x \<and> xs ! i \<notin> set (take i xs))
             = (xs ! i \<notin> set seen \<and> xs ! i \<notin> set (take i xs))"
      using True by auto
    then show ?thesis using True
      by (simp only: upt unique_from.simps Cons.IH if_True)
         (simp add: filter_map comp_def eq)
  next
    case False
    have "\<And>i. (xs ! i \<noteq> x \<and> xs ! i \<notin> set seen \<and> xs ! i \<notin> set (take i xs))
             = (xs ! i \<notin> set seen \<and> xs ! i \<noteq> x \<and> xs ! i \<notin> set (take i xs))"
      by auto
    then show ?thesis using False
      by (simp only: upt unique_from.simps Cons.IH if_False)
         (simp add: filter_map comp_def)
  qed
qed

lemma unique_first_occurrences: "unique xs = first_occurrences xs"
  by (simp add: unique_def first_occurrences_def unique_from_positions)

lemma unique_props:
  "distinct (unique xs)" "set (unique xs) = set xs"
  by (simp_all add: unique_def distinct_unique_from set_unique_from)

lemma hd_unique: "hd (unique (x # xs)) = x"
proof -
  have "seen \<noteq> [] \<Longrightarrow> hd (unique_from seen ys) = hd seen" for ys seen :: "'a list"
    by (induction ys arbitrary: seen) auto
  then show ?thesis by (simp add: unique_def)
qed

lemma sum_indicator_distinct:
  "distinct ss \<Longrightarrow> (\<Sum>s\<leftarrow>ss. if a = s then 1 else 0) = (if a \<in> set ss then 1 else (0::nat))"
  by (induction ss) auto

lemma sum_filter_lengths:
  "distinct ss \<Longrightarrow> f ` set xs \<subseteq> set ss \<Longrightarrow>
     (\<Sum>s\<leftarrow>ss. length (filter (\<lambda>r. f r = s) xs)) = length xs"
proof (induction xs)
  case Nil
  then show ?case by simp
next
  case (Cons x xs)
  have "(\<Sum>s\<leftarrow>ss. length (filter (\<lambda>r. f r = s) (x # xs)))
      = (\<Sum>s\<leftarrow>ss. (if f x = s then 1 else 0) + length (filter (\<lambda>r. f r = s) xs))"
    by (rule arg_cong[where f=sum_list]) auto
  also have "\<dots> = (\<Sum>s\<leftarrow>ss. if f x = s then 1 else 0) + (\<Sum>s\<leftarrow>ss. length (filter (\<lambda>r. f r = s) xs))"
    by (simp add: sum_list_addf)
  also have "\<dots> = 1 + length xs"
    using Cons by (simp add: sum_indicator_distinct)
  finally show ?case by simp
qed

lemma index_of_Some:
  "c \<in> set xs \<Longrightarrow> \<exists>i. index_of c xs = Some i \<and> i < length xs \<and> xs ! i = c"
  by (induction xs) auto

lemma float_series_mask:
  "index_of c (numeric_names df) = Some i \<Longrightarrow>
   float_series (getitem_mask df (eq_mask (species_column df) s)) c =
     Inr (map (\<lambda>r. measurements r ! i) (filter (\<lambda>r. species r = s) (rows df)))"
proof -
  assume a: "index_of c (numeric_names df) = Some i"
  have n: "numeric_names (getitem_mask df (eq_mask (species_column df) s)) = numeric_names df"
    by (simp add: getitem_mask_def)
  show ?thesis
    by (simp add: float_series_def getitem_def n a rows_getitem_mask_eq)
qed

lemma float_series_numeric:
  "index_of c (numeric_names df) = Some i \<Longrightarrow> float_series df c = Inr (whole_column df i)"
  by (simp add: float_series_def getitem_def whole_column_def)

subsection \<open>The scatter plot\<close>

lemma scatter_loop_closed:
  assumes "index_of cx (numeric_names df) = Some i"
      and "index_of cy (numeric_names df) = Some j"
  shows "scatter_loop df cx cy ss = Inr (map (group_of df i j) ss)"
proof (induction ss)
  case Nil
  then show ?case by simp
next
  case (Cons s ss)
  have z: "zip (map f xs) (map g xs) = map (\<lambda>r. (f r, g r)) xs" for f g and xs :: "iris_row list"
    by (induction xs) auto
  show ?case
    by (simp add: Let_def float_series_mask[OF assms(1)] float_series_mask[OF assms(2)]
        Cons.IH group_of_def z)
qed

text \<open>
  C2. For numeric fields chosen as X and Y the scatter builder returns one point-set per
  distinct category value, no category twice; the point-sets together hold as many points
  as the frame has rows; and the points of a point-set are the (x, y) pairs of the rows of
  that category, in row order.
\<close>

theorem C2_scatter:
  assumes "cx \<in> set (numeric_columns df)" and "cy \<in> set (numeric_columns df)"
  shows "\<exists>gs i j. buildScatter df cx cy = Inr \<lparr>x_field = cx, y_field = cy, groups = gs\<rparr>
           \<and> index_of cx (numeric_columns df) = Some i
           \<and> index_of cy (numeric_columns df) = Some j
           \<and> distinct (map label gs)
           \<and> set (map label gs) = set (species_column df)
           \<and> (\<Sum>g\<leftarrow>gs. length (points g)) = length (rows df)
           \<and> (\<forall>g \<in> set gs. points g =
                 map (\<lambda>r. (measurements r ! i, measurements r ! j))
                   (filter (\<lambda>r. species r = label g) (rows df)))"
proof -
  from assms obtain i j where
    i: "index_of cx (numeric_names df) = Some i" and
    j: "index_of cy (numeric_names df) = Some j"
    unfolding numeric_columns_def using index_of_Some by metis
  let ?ss = "unique (species_column df)"
  let ?gs = "map (group_of df i j) ?ss"
  have b: "buildScatter df cx cy = Inr \<lparr>x_field = cx, y_field = cy, groups = ?gs\<rparr>"
    by (simp add: buildScatter_def scatter_loop_closed[OF i j])
  have l: "map label ?gs = ?ss"
    by (simp add: comp_def group_of_def)
  have s: "(\<Sum>g\<leftarrow>?gs. length (points g)) = length (rows df)"
    using sum_filter_lengths[of ?ss species "rows df"]
    by (simp add: comp_def group_of_def unique_props species_column_def)
  have p: "\<forall>g \<in> set ?gs. points g =
                 map (\<lambda>r. (measurements r ! i, measurements r ! j))
                   (filter (\<lambda>r. species r = label g) (rows df))"
    by (auto simp: group_of_def)
  show ?thesis
    using b i j l s p unique_props[of "species_column df"]
    unfolding numeric_columns_def by (intro exI[of _ ?gs] exI[of _ i] exI[of _ j]) simp
qed

theorem C2_scatter_witness:
  "\<exists>gs i j. buildScatter sample_frame ''sepal length (cm)'' ''petal width (cm)''
               = Inr \<lparr>x_field = ''sepal length (cm)'', y_field = ''petal width (cm)'', groups = gs\<rparr>
           \<and> index_of ''sepal length (cm)'' (numeric_columns sample_frame) = Some i
           \<and> index_of ''petal width (cm)'' (numeric_columns sample_frame) = Some j
           \<and> distinct (map label gs)
           \<and> set (map label gs) = set (species_column sample_frame)
           \<and> (\<Sum>g\<leftarrow>gs. length (points g)) = length (rows sample_frame)
           \<and> (\<forall>g \<in> set gs. points g =
                 map (\<lambda>r. (measurements r ! i, measurements r ! j))
                   (filter (\<lambda>r. species r = label g) (rows sample_frame)))"
proof -
  have h: "''sepal length (cm)'' \<in> set (numeric_columns sample_frame)"
          "''petal width (cm)'' \<in> set (numeric_columns sample_frame)"
    by (simp_all add: numeric_columns_def sample_frame_def)
  show ?thesis using C2_scatter[OF h] .
qed

subsection \<open>The histogram\<close>

lemma sum_list_bincount:
  "\<forall>i \<in> set idx. i < n \<Longrightarrow> sum_list (bincount idx n) = length idx"
proof (induction idx)
  case Nil
  then show ?case by (simp add: bincount_def)
next
  case (Cons i idx)
  have "sum_list (bincount (i # idx) n)
      = (\<Sum>b\<leftarrow>[0..<n]. (if i = b then 1 else 0) + count_list idx b)"
    unfolding bincount_def by (intro arg_cong[where f=sum_list] map_cong) auto
  also have "\<dots> = (\<Sum>b\<leftarrow>[0..<n]. if i = b then 1 else 0) + sum_list (bincount idx n)"
    by (simp add: sum_list_addf bincount_def comp_def)
  also have "\<dots> = 1 + length idx"
    using Cons by (simp add: sum_indicator_distinct)
  finally show ?case by simp
qed

lemma outer_edges_cases:
  "outer_edges a = (0, 1) \<and> a = []
   \<or> a \<noteq> [] \<and> Min (set a) = Max (set a)
       \<and> outer_edges a = (Min (set a) - 1 / 2, Max (set a) + 1 / 2)
   \<or> a \<noteq> [] \<and> Min (set a) < Max (set a)
       \<and> outer_edges a = (Min (set a), Max (set a))"
proof (cases "a = []")
  case True
  then show ?thesis by (simp add: outer_edges_def)
next
  case False
  then have le: "Min (set a) \<le> Max (set a)" by simp
  show ?thesis
  proof (cases "Min (set a) = Max (set a)")
    case True
    with False show ?thesis by (simp add: outer_edges_def Let_def)
  next
    case ne: False
    with le have "Min (set a) < Max (set a)" by linarith
    with False ne show ?thesis by (simp add: outer_edges_def Let_def)
  qed
qed

lemma outer_edges_less: "outer_edges a = (lo, hi) \<Longrightarrow> lo < hi"
  using outer_edges_cases[of a] by (elim disjE) (auto simp: less_diff_eq)

lemma outer_edges_bounds:
  assumes "outer_edges a = (lo, hi)" and "x \<in> set a"
  shows "lo \<le> x \<and> x \<le> hi"
proof -
  have mn: "Min (set a) \<le> x" and mx: "x \<le> Max (set a)" using assms(2) by simp_all
  from assms(2) have ne: "a \<noteq> []" by auto
  from outer_edges_cases[of a] ne assms(1)
  have "lo = Min (set a) - 1 / 2 \<and> hi = Max (set a) + 1 / 2
        \<or> lo = Min (set a) \<and> hi = Max (set a)"
    by auto
  with mn mx show ?thesis by linarith
qed

lemma bin_index_less:
  assumes "0 < n" "lo < hi" "lo \<le> x" "x \<le> hi"
  shows "bin_index n lo hi x < n"
proof -
  let ?t = "(x - lo) / (hi - lo) * of_nat n"
  have "(x - lo) / (hi - lo) \<le> 1" using assms by simp
  then have "?t \<le> of_nat n"
    using mult_right_mono[of "(x - lo) / (hi - lo)" 1 "of_nat n :: rat"] by simp
  then have "\<lfloor>?t\<rfloor> \<le> int n" by (simp add: floor_le_iff) 
  then have "nat \<lfloor>?t\<rfloor> \<le> n" by simp
  then show ?thesis using assms(1) by (auto simp: bin_index_def Let_def)
qed

lemma nth_bin_edges:
  "k \<le> n \<Longrightarrow> bin_edges lo hi n ! k = lo + of_nat k * (hi - lo) / of_nat n"
  unfolding bin_edges_def by (simp only: nth_map length_upt nth_upt) (simp del: upt_Suc)

lemma length_bin_edges: "length (bin_edges lo hi n) = Suc n"
  by (simp add: bin_edges_def)

lemma bin_index_in_bin:
  assumes n: "0 < n" and w: "lo < hi" and x: "lo \<le> x" "x \<le> hi" and k: "k < n"
  shows "bin_index n lo hi x = k \<longleftrightarrow> in_bin (bin_edges lo hi n) k x"
proof -
  let ?t = "(x - lo) / (hi - lo) * of_nat n"
  have t0: "0 \<le> ?t" using w x by simp
  have ek: "bin_edges lo hi n ! k \<le> x \<longleftrightarrow> of_nat k \<le> ?t"
    using n w k by (simp add: nth_bin_edges field_simps)
  have ek1: "x < bin_edges lo hi n ! Suc k \<longleftrightarrow> ?t < of_nat k + 1"
    using n w k by (simp add: nth_bin_edges field_simps)
  have ek1': "x \<le> bin_edges lo hi n ! Suc k \<longleftrightarrow> ?t \<le> of_nat k + 1"
    using n w k by (simp add: nth_bin_edges field_simps)
  have fl: "nat \<lfloor>?t\<rfloor> = k \<longleftrightarrow> of_nat k \<le> ?t \<and> ?t < of_nat k + 1"
  proof -
    have "nat \<lfloor>?t\<rfloor> = k \<longleftrightarrow> \<lfloor>?t\<rfloor> = int k" using t0 by auto
    also have "\<dots> \<longleftrightarrow> of_int (int k) \<le> ?t \<and> ?t < of_int (int k) + 1"
      by (rule floor_eq_iff)
    finally show ?thesis by simp
  qed
  have tn: "?t \<le> of_nat n"
  proof -
    have "(x - lo) / (hi - lo) \<le> 1" using w x by simp
    then show ?thesis
      using mult_right_mono[of "(x - lo) / (hi - lo)" 1 "of_nat n :: rat"] by simp
  qed
  show ?thesis
  proof (cases "Suc k = n")
    case True
    then have last: "Suc (Suc k) = length (bin_edges lo hi n)" by (simp add: length_bin_edges)
    have "bin_index n lo hi x = k \<longleftrightarrow> nat \<lfloor>?t\<rfloor> = n \<or> nat \<lfloor>?t\<rfloor> = k"
      using True by (auto simp: bin_index_def Let_def)
    also have "nat \<lfloor>?t\<rfloor> = n \<longleftrightarrow> ?t = of_nat n"
    proof
      assume "nat \<lfloor>?t\<rfloor> = n"
      then have "\<lfloor>?t\<rfloor> = int n" using n by auto
      then have "of_nat n \<le> ?t" by (metis of_int_floor_le of_int_of_nat_eq)
      with tn show "?t = of_nat n" by simp
    next
      assume "?t = of_nat n"
      then show "nat \<lfloor>?t\<rfloor> = n" by simp
    qed
    finally have "bin_index n lo hi x = k \<longleftrightarrow> of_nat k \<le> ?t \<and> ?t \<le> of_nat k + 1"
      using fl True tn by (auto simp: of_nat_Suc[symmetric] simp del: of_nat_Suc)
    then show ?thesis
      using last ek ek1' by (simp add: in_bin_def)
  next
    case False
    then have notlast: "Suc (Suc k) \<noteq> length (bin_edges lo hi n)" by (simp add: length_bin_edges)
    have "nat \<lfloor>?t\<rfloor> = n \<Longrightarrow> bin_index n lo hi x \<noteq> k"
      using False k by (auto simp: bin_index_def Let_def)
    moreover have "nat \<lfloor>?t\<rfloor> = n \<Longrightarrow> \<not> ?t < of_nat k + 1"
    proof
      assume a: "nat \<lfloor>?t\<rfloor> = n" and b: "?t < of_nat k + 1"
      from b have "?t < of_int (int k + 1)" by simp
      then have "\<lfloor>?t\<rfloor> < int k + 1" by (simp only: floor_less_iff)
      with a k show False by linarith
    qed
    moreover have "nat \<lfloor>?t\<rfloor> \<noteq> n \<Longrightarrow> bin_index n lo hi x = nat \<lfloor>?t\<rfloor>"
      by (simp add: bin_index_def Let_def)
    ultimately have "bin_index n lo hi x = k \<longleftrightarrow> of_nat k \<le> ?t \<and> ?t < of_nat k + 1"
      using fl by (cases "nat \<lfloor>?t\<rfloor> = n") auto
    then show ?thesis
      using notlast ek ek1 by (simp add: in_bin_def)
  qed
qed

lemma hist_Inr:
  assumes "1 \<le> bins" and "outer_edges a = (lo, hi)"
  shows "hist a bins = Inr (bincount (map (bin_index bins lo hi) a) bins, bin_edges lo hi bins)"
  using assms by (simp add: hist_def)

lemma hist_counts_sum:
  assumes "1 \<le> bins" and "outer_edges a = (lo, hi)"
  shows "sum_list (bincount (map (bin_index bins lo hi) a) bins) = length a"
proof -
  have "\<forall>i \<in> set (map (bin_index bins lo hi) a). i < bins"
    using assms outer_edges_less[OF assms(2)] outer_edges_bounds[OF assms(2)]
    by (auto intro!: bin_index_less)
  from sum_list_bincount[OF this] show ?thesis by simp
qed

lemma hist_counts_nth:
  assumes "1 \<le> bins" and "outer_edges a = (lo, hi)" and "k < bins"
  shows "bincount (map (bin_index bins lo hi) a) bins ! k
         = length (filter (in_bin (bin_edges lo hi bins) k) a)"
proof -
  have "bincount (map (bin_index bins lo hi) a) bins ! k
        = count_list (map (bin_index bins lo hi) a) k"
    using assms(3) by (simp add: bincount_def)
  also have "\<dots> = length (filter (\<lambda>x. bin_index bins lo hi x = k) a)"
    by (induction a) auto
  also have "filter (\<lambda>x. bin_index bins lo hi x = k) a = filter (in_bin (bin_edges lo hi bins) k) a"
  proof (rule filter_cong[OF refl])
    fix x assume "x \<in> set a"
    from outer_edges_bounds[OF assms(2) this] outer_edges_less[OF assms(2)] assms(1,3)
    show "(bin_index bins lo hi x = k) = in_bin (bin_edges lo hi bins) k x"
      by (intro bin_index_in_bin) auto
  qed
  finally show ?thesis .
qed

lemma bin_edges_width:
  assumes "0 < n" "k < n"
  shows "bin_edges lo hi n ! Suc k - bin_edges lo hi n ! k
         = (bin_edges lo hi n ! n - bin_edges lo hi n ! 0) / of_nat n"
  using assms by (simp add: nth_bin_edges field_simps)

lemma bin_edges_ends:
  "0 < n \<Longrightarrow> bin_edges lo hi n ! 0 = lo \<and> bin_edges lo hi n ! n = hi"
  by (simp add: nth_bin_edges)

lemma length_bincount: "length (bincount idx n) = n"
  by (simp add: bincount_def)

text \<open>
  C1. For a numeric field the histogram builder returns 20 counts over 21 edges; the
  edges are equally spaced and, when the column holds two different values, run from the
  minimum to the maximum of the column over the whole frame; count \<open>k\<close> is the number of
  values of the column in bin \<open>k\<close>; the counts add up to the number of rows. The counts
  add up to the number of rows for every bin count of at least one.
\<close>

theorem C1_histogram:
  assumes "field \<in> set (numeric_columns df)"
  shows "\<exists>i h. index_of field (numeric_columns df) = Some i
           \<and> buildHistogram df field = Inr h
           \<and> hist_field h = field \<and> hist_bins h = 20
           \<and> length (hist_counts h) = 20 \<and> length (hist_edges h) = 21
           \<and> ((\<exists>u \<in> set (whole_column df i). \<exists>v \<in> set (whole_column df i). u \<noteq> v) \<longrightarrow>
                 hist_edges h ! 0 = Min (set (whole_column df i)) \<and>
                 hist_edges h ! 20 = Max (set (whole_column df i)))
           \<and> (\<forall>k<20. hist_edges h ! Suc k - hist_edges h ! k
                        = (hist_edges h ! 20 - hist_edges h ! 0) / 20)
           \<and> (\<forall>k<20. hist_counts h ! k
                        = length (filter (in_bin (hist_edges h) k) (whole_column df i)))
           \<and> sum_list (hist_counts h) = length (rows df)
           \<and> (\<forall>bins\<ge>1. \<exists>n edges. hist (whole_column df i) bins = Inr (n, edges)
                           \<and> length n = bins \<and> sum_list n = length (rows df))"
proof -
  from assms obtain i where i: "index_of field (numeric_names df) = Some i"
    unfolding numeric_columns_def using index_of_Some by metis
  let ?a = "whole_column df i"
  obtain lo hi where oe: "outer_edges ?a = (lo, hi)" by (cases "outer_edges ?a")
  let ?h = "\<lparr>hist_field = field, hist_bins = 20,
             hist_edges = bin_edges lo hi 20,
             hist_counts = bincount (map (bin_index 20 lo hi) ?a) 20\<rparr>"
  have la: "length ?a = length (rows df)" by (simp add: whole_column_def)
  have b: "buildHistogram df field = Inr ?h"
    by (simp add: buildHistogram_def float_series_numeric[OF i] hist_Inr[OF _ oe])
  have span: "(\<exists>u \<in> set ?a. \<exists>v \<in> set ?a. u \<noteq> v) \<longrightarrow>
                 bin_edges lo hi 20 ! 0 = Min (set ?a) \<and> bin_edges lo hi 20 ! 20 = Max (set ?a)"
  proof
    assume d: "\<exists>u \<in> set ?a. \<exists>v \<in> set ?a. u \<noteq> v"
    then obtain u v where uv: "u \<in> set ?a" "v \<in> set ?a" "u \<noteq> v" by blast
    have "Min (set ?a) \<noteq> Max (set ?a)"
    proof
      assume e: "Min (set ?a) = Max (set ?a)"
      have "Min (set ?a) \<le> u" "u \<le> Max (set ?a)" "Min (set ?a) \<le> v" "v \<le> Max (set ?a)"
        using uv by simp_all
      with e uv(3) show False by linarith
    qed
    with outer_edges_cases[of ?a] uv(1) oe have "lo = Min (set ?a) \<and> hi = Max (set ?a)"
      by auto
    then show "bin_edges lo hi 20 ! 0 = Min (set ?a) \<and> bin_edges lo hi 20 ! 20 = Max (set ?a)"
      using bin_edges_ends[of 20 lo hi] by simp
  qed
  have width: "\<forall>k<20. bin_edges lo hi 20 ! Suc k - bin_edges lo hi 20 ! k
                        = (bin_edges lo hi 20 ! 20 - bin_edges lo hi 20 ! 0) / 20"
    using bin_edges_width[of 20 _ lo hi] by simp
  have cnt: "\<forall>k<20. bincount (map (bin_index 20 lo hi) ?a) 20 ! k
                        = length (filter (in_bin (bin_edges lo hi 20) k) ?a)"
    using hist_counts_nth[OF _ oe, of 20] by simp
  have sm: "sum_list (bincount (map (bin_index 20 lo hi) ?a) 20) = length (rows df)"
    using hist_counts_sum[OF _ oe, of 20] la by simp
  have gen: "\<forall>bins\<ge>1. \<exists>n edges. hist ?a bins = Inr (n, edges)
                           \<and> length n = bins \<and> sum_list n = length (rows df)"
    using hist_Inr[OF _ oe] hist_counts_sum[OF _ oe] la by (simp add: length_bincount)
  show ?thesis
    apply (rule exI[of _ i], rule exI[of _ ?h])
    using i b span width cnt sm gen
    by (simp add: numeric_columns_def length_bincount length_bin_edges)
qed

theorem C1_histogram_witness:
  "\<exists>i h. index_of ''petal length (cm)'' (numeric_columns sample_frame) = Some i
           \<and> buildHistogram sample_frame ''petal length (cm)'' = Inr h
           \<and> hist_field h = ''petal length (cm)'' \<and> hist_bins h = 20
           \<and> length (hist_counts h) = 20 \<and> length (hist_edges h) = 21
           \<and> ((\<exists>u \<in> set (whole_column sample_frame i). \<exists>v \<in> set (whole_column sample_frame i). u \<noteq> v) \<longrightarrow>
                 hist_edges h ! 0 = Min (set (whole_column sample_frame i)) \<and>
                 hist_edges h ! 20 = Max (set (whole_column sample_frame i)))
           \<and> (\<forall>k<20. hist_edges h ! Suc k - hist_edges h ! k
                        = (hist_edges h ! 20 - hist_edges h ! 0) / 20)
           \<and> (\<forall>k<20. hist_counts h ! k
                        = length (filter (in_bin (hist_edges h) k) (whole_column sample_frame i)))
           \<and> sum_list (hist_counts h) = length (rows sample_frame)
           \<and> (\<forall>bins\<ge>1. \<exists>n edges. hist (whole_column sample_frame i) bins = Inr (n, edges)
                           \<and> length n = bins \<and> sum_list n = length (rows sample_frame))"
proof -
  have h: "''petal length (cm)'' \<in> set (numeric_columns sample_frame)"
    by (simp add: numeric_columns_def sample_frame_def)
  show ?thesis using C1_histogram[OF h] .
qed

subsection \<open>Loading and filtering\<close>

lemma rows_filterByCategory:
  "rows (filterByCategory df c) = filter (\<lambda>r. species r = c) (rows df)"
  by (simp add: filterByCategory_def rows_getitem_mask_eq)

lemma load_data_Inr:
  assumes "list_all (\<lambda>r. length r = length (feature_names iris)) (data iris)"
      and "list_all (\<lambda>t. t < length (target_names iris)) (target iris)"
  shows "load_data iris =
           Inr \<lparr>columns = (if ''Species'' \<in> set (feature_names iris)
                           then feature_names iris
                           else feature_names iris @ [''Species'']),
                numeric_names = filter (\<lambda>c. c \<noteq> ''Species'') (feature_names iris),
                rows = map2 (\<lambda>m t. \<lparr>measurements = float_values (feature_names iris) m,
                                     species = target_names iris ! t\<rparr>)
                         (data iris) (target iris)\<rparr>"
  using assms by (simp add: load_data_def)

lemma length_filter_map2_species:
  "length ds = length ts \<Longrightarrow>
   length (filter (\<lambda>r. species r = s)
             (map2 (\<lambda>m t. \<lparr>measurements = f m, species = names ! t\<rparr>) ds ts))
   = length (filter (\<lambda>t. names ! t = s) ts)"
  by (induction ds ts rule: list_induct2) auto

lemma float_values_id:
  assumes "''Species'' \<notin> set names" and "length r = length names"
  shows "float_values names r = r"
proof -
  have "filter (\<lambda>(c, v). c \<noteq> ''Species'') (zip names r) = zip names r"
    using assms(1) by (auto simp: filter_id_conv dest: set_zip_leftD)
  then show ?thesis
    using assms(2) by (simp add: float_values_def)
qed

lemma count_setosa:
  "list_all (\<lambda>t. t < 3) ts \<Longrightarrow>
   length (filter (\<lambda>t. [''setosa'', ''versicolor'', ''virginica''] ! t = ''setosa'') ts)
   = count_list ts 0"
proof (induction ts)
  case Nil
  then show ?case by simp
next
  case (Cons t ts)
  then have "t = 0 \<or> t = 1 \<or> t = 2" by auto
  with Cons show ?case by auto
qed

lemma list_all_replicate: "list_all P (replicate n x) = (n = 0 \<or> P x)"
  by (induction n) auto

lemma count_list_replicate: "count_list (replicate n x) y = (if x = y then n else 0)"
  by (induction n) auto

text \<open>
  C4. Filtering by a category value returns exactly the rows whose label is that value,
  in frame order, as a sub-sequence of the frame. On a resource with the standard label
  names, 150 rows and 50 rows labelled with the first name, the loaded frame filtered by
  "setosa" has exactly 50 rows, all labelled "setosa".
\<close>

theorem C4_filter:
  "rows (filterByCategory df c) = filter (\<lambda>r. species r = c) (rows df)
   \<and> subseq (rows (filterByCategory df c)) (rows df)
   \<and> (target_names iris = [''setosa'', ''versicolor'', ''virginica'']
        \<and> length (data iris) = 150 \<and> length (target iris) = 150
        \<and> list_all (\<lambda>r. length r = length (feature_names iris)) (data iris)
        \<and> list_all (\<lambda>t. t < 3) (target iris)
        \<and> count_list (target iris) 0 = 50
      \<longrightarrow> (\<exists>iris_data. load_data iris = Inr iris_data
             \<and> length (rows iris_data) = 150
             \<and> length (rows (filterByCategory iris_data ''setosa'')) = 50
             \<and> (\<forall>r \<in> set (rows (filterByCategory iris_data ''setosa'')). species r = ''setosa'')))"
proof (intro conjI impI)
  show "rows (filterByCategory df c) = filter (\<lambda>r. species r = c) (rows df)"
    by (rule rows_filterByCategory)
  show "subseq (rows (filterByCategory df c)) (rows df)"
    by (simp add: rows_filterByCategory)
next
  assume a: "target_names iris = [''setosa'', ''versicolor'', ''virginica'']
        \<and> length (data iris) = 150 \<and> length (target iris) = 150
        \<and> list_all (\<lambda>r. length r = length (feature_names iris)) (data iris)
        \<and> list_all (\<lambda>t. t < 3) (target iris)
        \<and> count_list (target iris) 0 = 50"
  let ?df = "\<lparr>columns = (if ''Species'' \<in> set (feature_names iris)
                         then feature_names iris
                         else feature_names iris @ [''Species'']),
              numeric_names = filter (\<lambda>c. c \<noteq> ''Species'') (feature_names iris),
              rows = map2 (\<lambda>m t. \<lparr>measurements = float_values (feature_names iris) m,
                                   species = target_names iris ! t\<rparr>)
                       (data iris) (target iris)\<rparr>"
  have l: "load_data iris = Inr ?df"
    using a by (intro load_data_Inr) (simp_all add: numeral_3_eq_3)
  have n: "length (rows ?df) = 150" using a by simp
  have f: "length (rows (filterByCategory ?df ''setosa'')) = 50"
    using a length_filter_map2_species[of "data iris" "target iris" "''setosa''"
              "float_values (feature_names iris)" "target_names iris"]
      count_setosa[of "target iris"]
    by (simp add: rows_filterByCategory)
  have s: "\<forall>r \<in> set (rows (filterByCategory ?df ''setosa'')). species r = ''setosa''"
    by (simp add: rows_filterByCategory)
  show "\<exists>iris_data. load_data iris = Inr iris_data
             \<and> length (rows iris_data) = 150
             \<and> length (rows (filterByCategory iris_data ''setosa'')) = 50
             \<and> (\<forall>r \<in> set (rows (filterByCategory iris_data ''setosa'')). species r = ''setosa'')"
    using l n f s by blast
qed

lemma iris_layout_shape:
  "target_names iris_layout = [''setosa'', ''versicolor'', ''virginica'']
        \<and> length (data iris_layout) = 150 \<and> length (target iris_layout) = 150
        \<and> list_all (\<lambda>r. length r = length (feature_names iris_layout)) (data iris_layout)
        \<and> list_all (\<lambda>t. t < 3) (target iris_layout)
        \<and> count_list (target iris_layout) 0 = 50"
  by (simp add: iris_layout_def data_def target_def list_all_replicate count_list_replicate)

theorem C4_filter_witness:
  "rows (filterByCategory sample_frame ''setosa'')
     = [\<lparr>measurements = [51/10, 7/2, 7/5, 1/5], species = ''setosa''\<rparr>,
        \<lparr>measurements = [49/10, 3, 7/5, 1/5], species = ''setosa''\<rparr>]
   \<and> (\<exists>iris_data. load_data iris_layout = Inr iris_data
             \<and> length (rows iris_data) = 150
             \<and> length (rows (filterByCategory iris_data ''setosa'')) = 50
             \<and> (\<forall>r \<in> set (rows (filterByCategory iris_data ''setosa'')). species r = ''setosa''))"
  using C4_filter[of sample_frame "''setosa''" iris_layout] iris_layout_shape
  by (simp add: sample_frame_def)

lemma species_map2:
  "list_all (\<lambda>t. t < length names) ts \<Longrightarrow>
   r \<in> set (map2 (\<lambda>m t. \<lparr>measurements = f m, species = names ! t\<rparr>) ds ts) \<Longrightarrow>
   species r \<in> set names \<and> measurements r \<in> f ` set ds"
proof -
  assume a: "list_all (\<lambda>t. t < length names) ts"
    and r: "r \<in> set (map2 (\<lambda>m t. \<lparr>measurements = f m, species = names ! t\<rparr>) ds ts)"
  from r obtain m t where mt: "(m, t) \<in> set (zip ds ts)"
    and req: "r = \<lparr>measurements = f m, species = names ! t\<rparr>" by auto
  from mt have "m \<in> set ds" "t \<in> set ts"
    by (auto dest: set_zip_leftD set_zip_rightD)
  with a req show ?thesis by (simp add: list_all_iff)
qed

lemma map_measurements_map2:
  "length ds = length ts \<Longrightarrow>
   map measurements (map2 (\<lambda>m t. \<lparr>measurements = f m, species = g t\<rparr>) ds ts) = map f ds"
  by (induction ds ts rule: list_induct2) auto

text \<open>
  C6. For a resource of 150 samples of four values, with four feature names none of
  which is "Species" and three distinct label names, \<^verbatim>\<open>load_data\<close> returns a frame of
  exactly 150 rows whose columns are the four numeric fields followed by the categorical
  field, in that order; every row holds the four values of its sample; the label of every
  row is one of the three label names, so the frame has at most three categories;
  selecting rows does not change the columns.
\<close>

theorem C6_dataset:
  assumes "length (data iris) = 150" and "length (target iris) = 150"
      and "length (feature_names iris) = 4"
      and "''Species'' \<notin> set (feature_names iris)"
      and "list_all (\<lambda>r. length r = 4) (data iris)"
      and "length (target_names iris) = 3" and "distinct (target_names iris)"
      and "list_all (\<lambda>t. t < 3) (target iris)"
  shows "\<exists>iris_data. load_data iris = Inr iris_data
           \<and> length (rows iris_data) = 150
           \<and> numeric_columns iris_data = feature_names iris
           \<and> length (numeric_columns iris_data) = 4
           \<and> columns iris_data = feature_names iris @ [''Species'']
           \<and> length (columns iris_data) = 5
           \<and> map measurements (rows iris_data) = data iris
           \<and> (\<forall>r \<in> set (rows iris_data).
                 length (measurements r) = 4 \<and> species r \<in> set (target_names iris))
           \<and> card (set (target_names iris)) = 3
           \<and> card (set (species_column iris_data)) \<le> 3
           \<and> (\<forall>m. columns (getitem_mask iris_data m) = columns iris_data
                  \<and> numeric_columns (getitem_mask iris_data m) = numeric_columns iris_data)"
proof -
  let ?fn = "feature_names iris"
  let ?rows = "map2 (\<lambda>m t. \<lparr>measurements = float_values ?fn m,
                              species = target_names iris ! t\<rparr>) (data iris) (target iris)"
  let ?df = "\<lparr>columns = (if ''Species'' \<in> set ?fn then ?fn else ?fn @ [''Species'']),
              numeric_names = filter (\<lambda>c. c \<noteq> ''Species'') ?fn,
              rows = ?rows\<rparr>"
  have l: "load_data iris = Inr ?df"
    using assms by (intro load_data_Inr) simp_all
  have nn: "filter (\<lambda>c. c \<noteq> ''Species'') ?fn = ?fn"
    using assms(4) by (auto simp: filter_id_conv)
  have fv: "\<And>m. m \<in> set (data iris) \<Longrightarrow> float_values ?fn m = m"
    using assms(3,4,5) by (intro float_values_id) (simp_all add: list_all_iff)
  have ms: "map measurements ?rows = data iris"
  proof -
    have "map measurements ?rows = map (float_values ?fn) (data iris)"
      using assms(1,2) by (intro map_measurements_map2) simp
    also have "\<dots> = data iris" using fv by (simp add: map_idI)
    finally show ?thesis .
  qed
  have c: "card (set (target_names iris)) = 3"
    using assms(6,7) by (simp add: distinct_card)
  have r: "\<forall>r \<in> set ?rows. length (measurements r) = 4 \<and> species r \<in> set (target_names iris)"
  proof
    fix r assume "r \<in> set ?rows"
    then have "species r \<in> set (target_names iris)
               \<and> measurements r \<in> float_values ?fn ` set (data iris)"
      using species_map2[of "target_names iris" "target iris" r "float_values ?fn" "data iris"]
        assms(6,8) by simp
    with fv have "species r \<in> set (target_names iris) \<and> measurements r \<in> set (data iris)"
      by auto
    with assms(5) show "length (measurements r) = 4 \<and> species r \<in> set (target_names iris)"
      by (simp add: list_all_iff)
  qed
  have sub: "set (map species ?rows) \<subseteq> set (target_names iris)"
    using r by auto
  have c3: "card (set (map species ?rows)) \<le> 3"
    using card_mono[OF finite_set sub] c by simp
  have m: "\<forall>m. columns (getitem_mask ?df m) = columns ?df
               \<and> numeric_columns (getitem_mask ?df m) = numeric_columns ?df"
    by (simp add: getitem_mask_def numeric_columns_def)
  have cols: "columns ?df = ?fn @ [''Species'']" using assms(4) by simp
  have p: "length (rows ?df) = 150" "numeric_columns ?df = ?fn"
          "length (numeric_columns ?df) = 4" "length (columns ?df) = 5"
          "map measurements (rows ?df) = data iris"
          "\<forall>r \<in> set (rows ?df). length (measurements r) = 4 \<and> species r \<in> set (target_names iris)"
          "card (set (species_column ?df)) \<le> 3"
    using assms(1,2,3,4) nn ms r c3 by (simp_all add: numeric_columns_def species_column_def)
  show ?thesis
    by (rule exI[of _ ?df]) (intro conjI l p cols c m)
qed

theorem C6_dataset_witness:
  "\<exists>iris_data. load_data iris_layout = Inr iris_data
           \<and> length (rows iris_data) = 150
           \<and> numeric_columns iris_data = feature_names iris_layout
           \<and> length (numeric_columns iris_data) = 4
           \<and> columns iris_data = feature_names iris_layout @ [''Species'']
           \<and> length (columns iris_data) = 5
           \<and> map measurements (rows iris_data) = data iris_layout
           \<and> (\<forall>r \<in> set (rows iris_data).
                 length (measurements r) = 4 \<and> species r \<in> set (target_names iris_layout))
           \<and> card (set (target_names iris_layout)) = 3
           \<and> card (set (species_column iris_data)) \<le> 3
           \<and> (\<forall>m. columns (getitem_mask iris_data m) = columns iris_data
                  \<and> numeric_columns (getitem_mask iris_data m) = numeric_columns iris_data)"
proof -
  have "length (data iris_layout) = 150" "length (target iris_layout) = 150"
       "length (feature_names iris_layout) = 4"
       "''Species'' \<notin> set (feature_names iris_layout)"
       "list_all (\<lambda>r. length r = 4) (data iris_layout)"
       "length (target_names iris_layout) = 3" "distinct (target_names iris_layout)"
       "list_all (\<lambda>t. t < 3) (target iris_layout)"
    by (simp_all add: iris_layout_def data_def target_def list_all_replicate)
  from C6_dataset[OF this] show ?thesis .
qed

subsection \<open>Colours and group order\<close>

lemma scatter_loop_labels:
  "scatter_loop df cx cy ss = Inr gs \<Longrightarrow>
     map label gs = ss \<and> (\<forall>g \<in> set gs. color g = color_of (label g))"
proof (induction ss arbitrary: gs)
  case Nil
  then show ?case by simp
next
  case (Cons s ss)
  then show ?case
    by (auto simp: Let_def split: sum.splits)
qed

lemma buildScatter_labels:
  "buildScatter df cx cy = Inr sc \<Longrightarrow>
     map label (groups sc) = unique (species_column df)
     \<and> (\<forall>g \<in> set (groups sc). color g = color_of (label g))"
  using scatter_loop_labels[of df cx cy "unique (species_column df)"]
  by (auto simp: buildScatter_def split: sum.splits)


lemma buildScatter_numeric:
  assumes "index_of cx (numeric_names df) = Some i" "index_of cy (numeric_names df) = Some j"
  shows "buildScatter df cx cy =
           Inr \<lparr>x_field = cx, y_field = cy,
                groups = map (group_of df i j) (unique (species_column df))\<rparr>"
  by (simp add: buildScatter_def scatter_loop_closed[OF assms])

lemma sample_scatter:
  "buildScatter sample_frame ''sepal length (cm)'' ''petal width (cm)'' =
     Inr \<lparr>x_field = ''sepal length (cm)'', y_field = ''petal width (cm)'',
          groups = map (group_of sample_frame 0 3) (unique (species_column sample_frame))\<rparr>"
  by (rule buildScatter_numeric) (simp_all add: sample_frame_def)


subsection \<open>Selections and runs\<close>

text \<open>
  C9. Before any interaction the histogram column and the X axis are the first numeric
  field, the Y axis is the second numeric field, or the first when there is only one,
  and the species filter is the first category value offered.
\<close>

theorem C9_defaults:
  "initial_selection df =
     Inr \<lparr>selected_column_hist = (case numeric_columns df of [] \<Rightarrow> None | n1 # _ \<Rightarrow> Some n1),
          col_x = (case numeric_columns df of [] \<Rightarrow> None | n1 # _ \<Rightarrow> Some n1),
          col_y = (case numeric_columns df of
                     [] \<Rightarrow> None | [n1] \<Rightarrow> Some n1 | _ # n2 # _ \<Rightarrow> Some n2),
          species_selected = (case unique (species_column df) of
                                [] \<Rightarrow> None | c # _ \<Rightarrow> Some c)\<rparr>"
proof -
  show ?thesis
  proof (cases "numeric_columns df")
    case Nil
    then show ?thesis
      by (cases "unique (species_column df)") (simp_all add: initial_selection_def selectbox_def)
  next
    case (Cons n1 rest)
    then show ?thesis
      by (cases rest; cases "unique (species_column df)")
         (simp_all add: initial_selection_def selectbox_def)
  qed
qed

theorem C9_defaults_witness:
  "initial_selection sample_frame =
     Inr \<lparr>selected_column_hist = Some ''sepal length (cm)'',
          col_x = Some ''sepal length (cm)'',
          col_y = Some ''sepal width (cm)'',
          species_selected = Some ''versicolor''\<rparr>
   \<and> initial_selection one_column_frame =
     Inr \<lparr>selected_column_hist = Some ''petal length (cm)'',
          col_x = Some ''petal length (cm)'',
          col_y = Some ''petal length (cm)'',
          species_selected = Some ''setosa''\<rparr>"
  using C9_defaults[of sample_frame] C9_defaults[of one_column_frame]
  by (simp add: sample_frame_def one_column_frame_def numeric_columns_def unique_def
      species_column_def)

lemma run_Inr_D:
  assumes "run df sel = Inr p"
  shows "\<exists>h x y. selected_column_hist sel = Some h \<and> col_x sel = Some x \<and> col_y sel = Some y
           \<and> buildHistogram df h = Inr (fig_hist p)
           \<and> buildScatter df x y = Inr (fig_scatter p)
           \<and> species_options p = unique (species_column df)
           \<and> species_count p = length (rows (species_data p))"
  using assms
  by (auto simp: run_def Let_def split: option.splits sum.splits prod.splits)

lemma initial_selection_species:
  "rows df = r # rs \<Longrightarrow>
     \<exists>sel. initial_selection df = Inr sel \<and> species_selected sel = Some (species r)"
proof -
  assume a: "rows df = r # rs"
  have "hd (unique (species_column df)) = species r"
    using a hd_unique[of "species r" "map species rs"] by (simp add: species_column_def)
  moreover have "unique (species_column df) \<noteq> []"
    using unique_props(2)[of "species_column df"] a by (auto simp: species_column_def)
  ultimately have s: "selectbox (unique (species_column df)) 0 = Inr (Some (species r))"
    by (cases "unique (species_column df)") (simp_all add: selectbox_def)
  have n: "\<exists>v. selectbox (numeric_columns df) 0 = Inr v"
    by (cases "numeric_columns df") (simp_all add: selectbox_def)
  have y: "\<exists>v. selectbox (numeric_columns df) (if length (numeric_columns df) > 1 then 1 else 0) = Inr v"
    by (cases "numeric_columns df") (simp_all add: selectbox_def)
  from n y s show ?thesis
    by (auto simp: initial_selection_def)
qed

lemma buildHistogram_numeric:
  assumes "index_of c (numeric_names df) = Some i"
  shows "\<exists>h. buildHistogram df c = Inr h"
proof -
  obtain lo hi where oe: "outer_edges (whole_column df i) = (lo, hi)"
    by (cases "outer_edges (whole_column df i)")
  show ?thesis
    by (simp add: buildHistogram_def float_series_numeric[OF assms] hist_Inr[OF _ oe])
qed

lemma run_numeric:
  assumes "index_of h (numeric_names df) = Some k"
      and "index_of x (numeric_names df) = Some i"
      and "index_of y (numeric_names df) = Some j"
  shows "\<exists>p. run df \<lparr>selected_column_hist = Some h, col_x = Some x, col_y = Some y,
                       species_selected = Some s\<rparr> = Inr p
             \<and> species_data p = filterByCategory df s"
proof -
  from buildHistogram_numeric[OF assms(1)] obtain hs where "buildHistogram df h = Inr hs" ..
  then show ?thesis
    by (simp add: run_def buildScatter_numeric[OF assms(2,3)] Let_def)
qed

text \<open>
  C10. The point-sets of the scatter plot come in the order in which the categories
  first occur in the rows; the species dropdown offers the categories in the same order;
  its first option, which is the default, is the category of the first row.
\<close>

theorem C10_first_occurrence_order:
  "(buildScatter df cx cy = Inr sc \<longrightarrow>
      map label (groups sc) = first_occurrences (species_column df))
   \<and> (run df sel = Inr p \<longrightarrow>
        species_options p = first_occurrences (species_column df)
        \<and> map label (groups (fig_scatter p)) = species_options p)
   \<and> (rows df = r # rs \<longrightarrow>
        hd (first_occurrences (species_column df)) = species r
        \<and> (\<exists>sel0. initial_selection df = Inr sel0
                    \<and> species_selected sel0 = Some (species r)))"
proof (intro conjI impI)
  assume "buildScatter df cx cy = Inr sc"
  then show "map label (groups sc) = first_occurrences (species_column df)"
    using buildScatter_labels[of df cx cy sc] by (simp add: unique_first_occurrences)
next
  assume a: "run df sel = Inr p"
  from run_Inr_D[OF a] obtain h x y where
    sc: "buildScatter df x y = Inr (fig_scatter p)"
    and so: "species_options p = unique (species_column df)" by blast
  from so show "species_options p = first_occurrences (species_column df)"
    by (simp add: unique_first_occurrences)
  from buildScatter_labels[OF sc] so
  show "map label (groups (fig_scatter p)) = species_options p" by simp
next
  assume a: "rows df = r # rs"
  show "hd (first_occurrences (species_column df)) = species r"
    using a hd_unique[of "species r" "map species rs"]
    by (simp add: species_column_def unique_first_occurrences[symmetric])
  show "\<exists>sel0. initial_selection df = Inr sel0 \<and> species_selected sel0 = Some (species r)"
    using a by (rule initial_selection_species)
qed

lemma sample_first_occurrences:
  "first_occurrences (species_column sample_frame) = [''versicolor'', ''setosa'', ''virginica'']"
  by (simp add: unique_first_occurrences[symmetric] unique_def species_column_def sample_frame_def)

theorem C10_first_occurrence_order_witness:
  "first_occurrences (species_column sample_frame) = [''versicolor'', ''setosa'', ''virginica'']
   \<and> map label (map (group_of sample_frame 0 3) (unique (species_column sample_frame)))
       = first_occurrences (species_column sample_frame)
   \<and> (\<exists>p. run sample_frame sample_selection = Inr p
          \<and> species_options p = first_occurrences (species_column sample_frame)
          \<and> map label (groups (fig_scatter p)) = species_options p)
   \<and> hd (first_occurrences (species_column sample_frame)) = ''versicolor''
   \<and> (\<exists>sel0. initial_selection sample_frame = Inr sel0
                    \<and> species_selected sel0 = Some ''versicolor'')"
proof -
  let ?sc = "\<lparr>x_field = ''sepal length (cm)'', y_field = ''petal width (cm)'',
              groups = map (group_of sample_frame 0 3) (unique (species_column sample_frame))\<rparr>"
  let ?r = "\<lparr>measurements = [7, 16/5, 47/10, 7/5], species = ''versicolor''\<rparr>"
  let ?rs = "[\<lparr>measurements = [51/10, 7/2, 7/5, 1/5], species = ''setosa''\<rparr>,
              \<lparr>measurements = [32/5, 16/5, 9/2, 3/2], species = ''versicolor''\<rparr>,
              \<lparr>measurements = [63/10, 33/10, 6, 5/2], species = ''virginica''\<rparr>,
              \<lparr>measurements = [49/10, 3, 7/5, 1/5], species = ''setosa''\<rparr>,
              \<lparr>measurements = [29/5, 27/10, 51/10, 19/10], species = ''virginica''\<rparr>]"
  have i: "index_of ''petal length (cm)'' (numeric_names sample_frame) = Some 2"
          "index_of ''sepal length (cm)'' (numeric_names sample_frame) = Some 0"
          "index_of ''petal width (cm)'' (numeric_names sample_frame) = Some 3"
    by (simp_all add: sample_frame_def)
  from run_numeric[OF i, of "''versicolor''"] obtain p where
    p: "run sample_frame sample_selection = Inr p"
    by (auto simp: sample_selection_def)
  have rw: "rows sample_frame = ?r # ?rs" by (simp add: sample_frame_def)
  note t = C10_first_occurrence_order[of sample_frame "''sepal length (cm)''" "''petal width (cm)''"
              ?sc sample_selection p ?r ?rs]
  have a: "map label (groups ?sc) = first_occurrences (species_column sample_frame)"
    using t[THEN conjunct1] sample_scatter by (rule mp)
  have b: "species_options p = first_occurrences (species_column sample_frame)
        \<and> map label (groups (fig_scatter p)) = species_options p"
    using t[THEN conjunct2, THEN conjunct1] p by (rule mp)
  have c: "hd (first_occurrences (species_column sample_frame)) = species ?r
        \<and> (\<exists>sel0. initial_selection sample_frame = Inr sel0
                    \<and> species_selected sel0 = Some (species ?r))"
    using t[THEN conjunct2, THEN conjunct2] rw by (rule mp)
  from a have a': "map label (map (group_of sample_frame 0 3) (unique (species_column sample_frame)))
       = first_occurrences (species_column sample_frame)" by simp
  from c have c': "hd (first_occurrences (species_column sample_frame)) = ''versicolor''
        \<and> (\<exists>sel0. initial_selection sample_frame = Inr sel0
                    \<and> species_selected sel0 = Some ''versicolor'')" by simp
  from p b have b': "\<exists>p. run sample_frame sample_selection = Inr p
          \<and> species_options p = first_occurrences (species_column sample_frame)
          \<and> map label (groups (fig_scatter p)) = species_options p" by (intro exI[of _ p]) simp
  from sample_first_occurrences a' b' c' show ?thesis by (intro conjI) (elim conjE, assumption)+
qed

text \<open>
  C8. Two runs over the same frame with the same histogram, X and Y selections produce
  the same histogram and the same scatter plot whatever the species selections are; both
  charts are the ones built from the whole frame.
\<close>

theorem C8_charts_ignore_species:
  assumes "selected_column_hist s1 = selected_column_hist s2"
      and "col_x s1 = col_x s2" and "col_y s1 = col_y s2"
  shows "charts (run df s1) = charts (run df s2)
         \<and> (\<forall>p. run df s1 = Inr p \<longrightarrow>
               (\<exists>h x y. selected_column_hist s1 = Some h \<and> col_x s1 = Some x \<and> col_y s1 = Some y
                  \<and> buildHistogram df h = Inr (fig_hist p)
                  \<and> buildScatter df x y = Inr (fig_scatter p)))"
proof
  show "charts (run df s1) = charts (run df s2)"
    using assms
    by (auto simp: charts_def run_def Let_def split: option.splits sum.splits prod.splits)
  show "\<forall>p. run df s1 = Inr p \<longrightarrow>
               (\<exists>h x y. selected_column_hist s1 = Some h \<and> col_x s1 = Some x \<and> col_y s1 = Some y
                  \<and> buildHistogram df h = Inr (fig_hist p)
                  \<and> buildScatter df x y = Inr (fig_scatter p))"
    using run_Inr_D[of df s1] by blast
qed

theorem C8_charts_ignore_species_witness:
  "charts (run sample_frame sample_selection)
     = charts (run sample_frame (sample_selection\<lparr>species_selected := Some ''virginica''\<rparr>))
   \<and> (\<exists>p1 p2. run sample_frame sample_selection = Inr p1
          \<and> run sample_frame (sample_selection\<lparr>species_selected := Some ''virginica''\<rparr>) = Inr p2
          \<and> fig_hist p1 = fig_hist p2 \<and> fig_scatter p1 = fig_scatter p2
          \<and> species_count p1 = 2 \<and> species_count p2 = 2
          \<and> species_data p1 \<noteq> species_data p2)"
proof -
  let ?s2 = "sample_selection\<lparr>species_selected := Some ''virginica''\<rparr>"
  have h: "selected_column_hist sample_selection = selected_column_hist ?s2"
          "col_x sample_selection = col_x ?s2" "col_y sample_selection = col_y ?s2"
    by simp_all
  have c: "charts (run sample_frame sample_selection) = charts (run sample_frame ?s2)"
    using C8_charts_ignore_species[OF h, of sample_frame] by simp
  have i: "index_of ''petal length (cm)'' (numeric_names sample_frame) = Some 2"
          "index_of ''sepal length (cm)'' (numeric_names sample_frame) = Some 0"
          "index_of ''petal width (cm)'' (numeric_names sample_frame) = Some 3"
    by (simp_all add: sample_frame_def)
  from run_numeric[OF i, of "''versicolor''"] obtain p1 where
    p1: "run sample_frame sample_selection = Inr p1"
        "species_data p1 = filterByCategory sample_frame ''versicolor''"
    by (auto simp: sample_selection_def)
  from run_numeric[OF i, of "''virginica''"] obtain p2 where
    p2: "run sample_frame ?s2 = Inr p2"
        "species_data p2 = filterByCategory sample_frame ''virginica''"
    by (auto simp: sample_selection_def)
  have d: "rows (species_data p1) \<noteq> rows (species_data p2)"
    unfolding p1 p2 by (simp add: rows_filterByCategory sample_frame_def)
  then have d': "species_data p1 \<noteq> species_data p2" by auto
  have "species_count p1 = length (rows (species_data p1))"
    using run_Inr_D[OF p1(1)] by blast
  then have n1: "species_count p1 = 2"
    unfolding p1(2) by (simp add: rows_filterByCategory sample_frame_def)
  have "species_count p2 = length (rows (species_data p2))"
    using run_Inr_D[OF p2(1)] by blast
  then have n2: "species_count p2 = 2"
    unfolding p2(2) by (simp add: rows_filterByCategory sample_frame_def)
  from c p1(1) p2(1) have "fig_hist p1 = fig_hist p2 \<and> fig_scatter p1 = fig_scatter p2"
    by (simp add: charts_def)
  with c p1(1) p2(1) d' n1 n2 show ?thesis by blast
qed

subsection \<open>Summary statistics\<close>









end
